theory Spec2Isabelle
  imports Main
begin

section \<open>Values of the host language\<close>

text \<open>
  \<^verbatim>\<open>webhookOptions\<close> is built in \<^verbatim>\<open>chatbot.ts\<close> as an untyped object (\<^verbatim>\<open>any\<close>).
  Objects are association lists in insertion order, so that both the keys that are
  present and the keys that are absent can be stated.
\<close>

datatype json =
    JNull
  | JString string
  | JArray "json list"
  | JObject "(string \<times> json) list"

text \<open>
  Anything can be thrown. A thrown value is
  \<^item> \<open>Err name msg\<close>: an \<^verbatim>\<open>Error\<close> object with that \<^verbatim>\<open>name\<close> and \<^verbatim>\<open>message\<close>, converted to a
    string by \<^verbatim>\<open>Error.prototype.toString\<close>;
  \<^item> \<open>ErrOwn msg s\<close>: an \<^verbatim>\<open>Error\<close> object with that \<^verbatim>\<open>message\<close> whose class has a
    \<^verbatim>\<open>toString\<close> of its own, which gives \<open>s\<close>;
  \<^item> \<open>NonErr s\<close>: a value that is not an \<^verbatim>\<open>Error\<close> object and converts to the string \<open>s\<close>;
  \<^item> \<open>NoString t\<close>: a value that is not an \<^verbatim>\<open>Error\<close> object and whose conversion to a
    string throws \<open>t\<close>, as it does for a symbol or an object without a prototype.

  \<open>String_thrown\<close> is the conversion a template literal applies to the value.
\<close>

datatype thrown =
    Err string string
  | ErrOwn string string
  | NonErr string
  | NoString thrown

fun String_thrown :: "thrown \<Rightarrow> thrown + string" where
  "String_thrown (Err name msg) =
     Inr (if name = [] then msg else if msg = [] then name else name @ '': '' @ msg)"
| "String_thrown (ErrOwn msg s) = Inr s"
| "String_thrown (NonErr s) = Inr s"
| "String_thrown (NoString t) = Inl t"

text \<open>How a call ends: with a value, or with a thrown value that reaches the caller.\<close>

datatype 'a completion = Returns 'a | Throws thrown

text \<open>The effects of the program that an observer can see, in the order they happen.\<close>

datatype log_arg = Text string | Obj thrown

datatype event =
    ConsoleLog string
  | ConsoleError string log_arg
  | WebhookCreate json
  | AgentStream string
  | Question string
  | Sleep nat
  | ProcessExit nat
  | RlClose

text \<open>
  The truth value of an optional string in a condition: \<^verbatim>\<open>undefined\<close> and the empty
  string are falsy, every other string is truthy.
\<close>

definition truthy :: "string option \<Rightarrow> bool" where
  "truthy v = (case v of None \<Rightarrow> False | Some s \<Rightarrow> s \<noteq> [])"

section \<open>Configuration\<close>

text \<open>\<^verbatim>\<open>process.env\<close>, restricted to the one variable the modelled code reads.\<close>

record env =
  NETWORK_ID :: "string option"

text \<open>
  \<^verbatim>\<open>initializeAgent\<close>, lines 206 to 209: the network of the agent kit is
  \<^verbatim>\<open>process.env.NETWORK_ID || "base-sepolia"\<close>.
\<close>

definition initializeAgent_networkId :: "env \<Rightarrow> string" where
  "initializeAgent_networkId e =
     (case NETWORK_ID e of
        None \<Rightarrow> ''base-sepolia''
      | Some n \<Rightarrow> if n \<noteq> [] then n else ''base-sepolia'')"

section \<open>The arguments of the webhook tool\<close>

definition WebhookEventType :: "string list" where
  "WebhookEventType =
     [''wallet_activity'', ''smart_contract_event_activity'',
      ''erc20_transfer'', ''erc721_transfer'']"

text \<open>
  \<^verbatim>\<open>EventFilters\<close>: four optional fields. \<open>None\<close> is a key that is not in the object.
\<close>

record EventFilters =
  addresses :: "string list option"
  from_address :: "string option"
  to_address :: "string option"
  contract_address :: "string option"

record EventTypeFilter =
  filter_addresses :: "string list"

text \<open>
  The \<^verbatim>\<open>args\<close> of \<^verbatim>\<open>createWebhook\<close>. \<open>eventType\<close> is a string, as it is when the
  function runs: the \<^verbatim>\<open>switch\<close> has a \<^verbatim>\<open>default\<close> branch for a value outside the
  enumeration.
\<close>

record CreateWebhookArgs =
  notificationUri :: string
  eventType :: string
  eventTypeFilter :: EventTypeFilter
  eventFilters :: "EventFilters option"

section \<open>createWebhook\<close>

text \<open>\<^verbatim>\<open>eventFilters?.f\<close>: \<^verbatim>\<open>undefined\<close> when \<^verbatim>\<open>eventFilters\<close> itself is.\<close>

definition opt_chain :: "EventFilters option \<Rightarrow> (EventFilters \<Rightarrow> string option) \<Rightarrow> string option" where
  "opt_chain ef sel = (case ef of None \<Rightarrow> None | Some f \<Rightarrow> sel f)"

text \<open>
  \<^verbatim>\<open>...(v ? { k: v } : {})\<close>: the entries that one spread adds to the object literal.
\<close>

definition spread_field :: "string \<Rightarrow> string option \<Rightarrow> (string \<times> json) list" where
  "spread_field k v =
     (case v of
        None \<Rightarrow> []
      | Some s \<Rightarrow> if s \<noteq> [] then [(k, JString s)] else [])"

text \<open>Lines 152 to 162: the object inside the \<^verbatim>\<open>eventFilters\<close> array.\<close>

definition transferFilterObject :: "EventFilters option \<Rightarrow> (string \<times> json) list" where
  "transferFilterObject ef =
     spread_field ''contract_address'' (opt_chain ef contract_address)
     @ spread_field ''from_address'' (opt_chain ef from_address)
     @ spread_field ''to_address'' (opt_chain ef to_address)"

text \<open>
  Lines 130 to 167: \<^verbatim>\<open>webhookOptions\<close> and the \<^verbatim>\<open>switch\<close> on the event type.
  \<^verbatim>\<open>eventTypeFilter.addresses || []\<close> is the array itself, since every array is truthy.
\<close>

definition buildWebhookOptions :: "string \<Rightarrow> CreateWebhookArgs \<Rightarrow> thrown + json" where
  "buildWebhookOptions networkId args =
     (let webhookOptions =
            [(''networkId'', JString networkId),
             (''notificationUri'', JString (notificationUri args)),
             (''eventType'', JString (eventType args))]
      in
        if eventType args = ''wallet_activity'' then
          Inr (JObject (webhookOptions @
            [(''eventTypeFilter'',
              JObject [(''addresses'',
                        JArray (map JString (filter_addresses (eventTypeFilter args)))),
                       (''wallet_id'', JString [])])]))
        else if eventType args = ''smart_contract_event_activity'' then
          Inr (JObject (webhookOptions @
            [(''eventTypeFilter'',
              JObject [(''contract_addresses'',
                        JArray (map JString (filter_addresses (eventTypeFilter args))))])]))
        else if eventType args = ''erc20_transfer'' \<or> eventType args = ''erc721_transfer'' then
          Inr (JObject (webhookOptions @
            [(''eventFilters'', JArray [JObject (transferFilterObject (eventFilters args))])]))
        else
          Inl (Err ''Error'' (''Unsupported event type: '' @ eventType args)))"

text \<open>
  \<^verbatim>\<open>Webhook.create\<close> belongs to the provider's SDK: it is a parameter. It either
  throws or gives a webhook, kept by the string its \<^verbatim>\<open>toString()\<close> gives; \<open>None\<close>
  is a nullish webhook, which \<^verbatim>\<open>webhook?.toString()\<close> renders as \<^verbatim>\<open>undefined\<close>.
\<close>

type_synonym provider = "json \<Rightarrow> thrown + string option"

definition not_configured :: thrown where
  "not_configured = Err ''Error'' ''Network ID is not configured in environment variables''"

text \<open>Lines 122 to 173: the body of the \<^verbatim>\<open>try\<close> block.\<close>

definition createWebhook_try :: "env \<Rightarrow> provider \<Rightarrow> CreateWebhookArgs \<Rightarrow> (thrown + string) \<times> event list" where
  "createWebhook_try e create args =
     (case NETWORK_ID e of
        None \<Rightarrow> (Inl not_configured, [])
      | Some networkId \<Rightarrow>
          if networkId = [] then (Inl not_configured, [])
          else
            (case buildWebhookOptions networkId args of
               Inl err \<Rightarrow> (Inl err, [])
             | Inr webhookOptions \<Rightarrow>
                 (case create webhookOptions of
                    Inl err \<Rightarrow> (Inl err, [WebhookCreate webhookOptions])
                  | Inr webhook \<Rightarrow>
                      (Inr (''The webhook was successfully created: ''
                            @ (case webhook of None \<Rightarrow> ''undefined'' | Some s \<Rightarrow> s)
                            @ [CHR 0x0A, CHR 0x0A]),
                       [WebhookCreate webhookOptions]))))"

text \<open>
  Lines 174 to 177: the \<^verbatim>\<open>catch\<close> block. It logs the thrown value and returns the
  template literal \<^verbatim>\<open>Error: ${error}\<close>; the block is outside the \<^verbatim>\<open>try\<close>, so what the
  conversion of the value throws leaves the function.
\<close>

definition createWebhook_catch :: "thrown \<Rightarrow> event list \<Rightarrow> string completion \<times> event list" where
  "createWebhook_catch err evs =
     (case String_thrown err of
        Inr s \<Rightarrow> Returns (''Error: '' @ s)
      | Inl t \<Rightarrow> Throws t,
      evs @ [ConsoleError ''Failed to create webhook:'' (Obj err)])"

text \<open>Lines 121 to 177: the \<^verbatim>\<open>try\<close> block with its \<^verbatim>\<open>catch\<close>.\<close>

definition createWebhook :: "env \<Rightarrow> provider \<Rightarrow> CreateWebhookArgs \<Rightarrow> string completion \<times> event list" where
  "createWebhook e create args =
     (case createWebhook_try e create args of
        (Inr s, evs) \<Rightarrow> (Returns s, evs)
      | (Inl err, evs) \<Rightarrow> createWebhook_catch err evs)"

text \<open>The payloads handed to the provider during a run.\<close>

fun submitted :: "event list \<Rightarrow> json list" where
  "submitted [] = []"
| "submitted (WebhookCreate p # evs) = p # submitted evs"
| "submitted (_ # evs) = submitted evs"

section \<open>The input schema of the tool\<close>

text \<open>
  Lines 56 to 103 declare the schemas with the validation library; lines 233 to 241
  register \<^verbatim>\<open>createWebhook\<close> as the function of a tool whose \<^verbatim>\<open>argsSchema\<close> is
  \<^verbatim>\<open>CreateWebhookInput\<close>. The library is not part of the repository. What is modelled
  of it: an optional field accepts an absent key, an object schema checks every field
  and collects the issues, a refinement runs on the parsed object, and the tool calls
  its function only with arguments the schema accepted. Whether a string is a URL is
  the library's decision and is a parameter.
\<close>

datatype issue = InvalidUrl | InvalidEnumValue string | Custom string

text \<open>\<^verbatim>\<open>Object.keys(data)\<close> of a parsed \<^verbatim>\<open>EventFilters\<close> object: the keys that are present.\<close>

definition object_keys :: "EventFilters \<Rightarrow> string list" where
  "object_keys data =
     (case addresses data of None \<Rightarrow> [] | Some _ \<Rightarrow> [''addresses''])
     @ (case from_address data of None \<Rightarrow> [] | Some _ \<Rightarrow> [''from_address''])
     @ (case to_address data of None \<Rightarrow> [] | Some _ \<Rightarrow> [''to_address''])
     @ (case contract_address data of None \<Rightarrow> [] | Some _ \<Rightarrow> [''contract_address''])"

text \<open>Lines 83 to 89: the refinement of \<^verbatim>\<open>EventFilters\<close> and its message.\<close>

definition EventFilters_issues :: "EventFilters \<Rightarrow> issue list" where
  "EventFilters_issues data =
     (if length (object_keys data) > 0 then []
      else [Custom ''At least one filter must be provided''])"

text \<open>Lines 91 to 103: \<^verbatim>\<open>CreateWebhookInput\<close>, with \<^verbatim>\<open>eventFilters\<close> optional.\<close>

definition CreateWebhookInput_issues :: "(string \<Rightarrow> bool) \<Rightarrow> CreateWebhookArgs \<Rightarrow> issue list" where
  "CreateWebhookInput_issues is_url raw =
     (if is_url (notificationUri raw) then [] else [InvalidUrl])
     @ (if eventType raw \<in> set WebhookEventType then [] else [InvalidEnumValue (eventType raw)])
     @ (case eventFilters raw of None \<Rightarrow> [] | Some f \<Rightarrow> EventFilters_issues f)"

datatype tool_outcome =
    Rejected "issue list"
  | Invoked "string completion \<times> event list"

definition create_webhook_tool ::
    "(string \<Rightarrow> bool) \<Rightarrow> env \<Rightarrow> provider \<Rightarrow> CreateWebhookArgs \<Rightarrow> tool_outcome" where
  "create_webhook_tool is_url e create raw =
     (case CreateWebhookInput_issues is_url raw of
        [] \<Rightarrow> Invoked (createWebhook e create raw)
      | i # is \<Rightarrow> Rejected (i # is))"

text \<open>
  The recognized fields of an event filter that carry a value: a string field counts
  when it is a non-empty string, which is the test \<^verbatim>\<open>createWebhook\<close> applies before
  it copies the field. An omitted filter has none.
\<close>

definition populated_fields :: "EventFilters option \<Rightarrow> string list" where
  "populated_fields ef =
     (case ef of
        None \<Rightarrow> []
      | Some f \<Rightarrow>
          (case addresses f of None \<Rightarrow> [] | Some _ \<Rightarrow> [''addresses''])
          @ (if truthy (from_address f) then [''from_address''] else [])
          @ (if truthy (to_address f) then [''to_address''] else [])
          @ (if truthy (contract_address f) then [''contract_address''] else []))"

section \<open>The session drivers\<close>

text \<open>
  A chunk of the agent's stream has the key \<^verbatim>\<open>agent\<close>, or else the key \<^verbatim>\<open>tools\<close>, or
  neither; under the key is a list of messages, kept by their \<^verbatim>\<open>content\<close>.
\<close>

datatype chunk = AgentChunk "string list" | ToolsChunk "string list" | OtherChunk

text \<open>
  \<^verbatim>\<open>agent.stream\<close> belongs to the agent runtime. The call throws, or gives a finite
  stream of chunks that ends normally or by throwing. The agent keeps the thread's
  messages, so its answer is a function of all messages sent so far.
\<close>

datatype response = StreamThrows thrown | Stream "chunk list" "thrown option"

type_synonym agent = "string list \<Rightarrow> response"

definition separator :: string where
  "separator = ''-------------------''"

definition no_first_message :: thrown where
  "no_first_message =
     Err ''TypeError''
       (''Cannot read properties of undefined (reading '' @ [CHR 0x27] @ ''content''
        @ [CHR 0x27] @ '')'')"

text \<open>
  Lines 292 to 296 and 341 to 345: \<^verbatim>\<open>messages[0].content\<close> is logged; reading it
  throws when there is no first message.
\<close>

fun print_chunk :: "chunk \<Rightarrow> thrown + event list" where
  "print_chunk (AgentChunk []) = Inl no_first_message"
| "print_chunk (AgentChunk (content # _)) = Inr [ConsoleLog content]"
| "print_chunk (ToolsChunk []) = Inl no_first_message"
| "print_chunk (ToolsChunk (content # _)) = Inr [ConsoleLog content]"
| "print_chunk OtherChunk = Inr []"

text \<open>
  Lines 291 to 298 and 340 to 347, the same \<^verbatim>\<open>for await\<close> loop in both drivers. The
  second argument is how the stream ends after its last chunk.
\<close>

fun consume :: "chunk list \<Rightarrow> thrown option \<Rightarrow> event list \<times> thrown option" where
  "consume [] fin = ([], fin)"
| "consume (c # cs) fin =
     (case print_chunk c of
        Inl err \<Rightarrow> ([], Some err)
      | Inr printed \<Rightarrow>
          (case consume cs fin of
             (rest, r) \<Rightarrow> (printed @ ConsoleLog separator # rest, r)))"

text \<open>
  One turn: the call of \<^verbatim>\<open>agent.stream\<close> with the message and the loop over its stream.
  \<open>hist\<close> is what the agent's thread already holds; the drivers pass it on and add
  each message they send.
\<close>

definition runTurn :: "agent \<Rightarrow> string list \<Rightarrow> string \<Rightarrow> event list \<times> thrown option" where
  "runTurn agent hist msg =
     (case agent (hist @ [msg]) of
        StreamThrows err \<Rightarrow> ([AgentStream msg], Some err)
      | Stream cs fin \<Rightarrow>
          (case consume cs fin of (evs, r) \<Rightarrow> (AgentStream msg # evs, r)))"

text \<open>
  Lines 301 to 306 and 349 to 353: the \<^verbatim>\<open>catch\<close> block of both drivers. \<^verbatim>\<open>process.exit\<close>
  does not return.
\<close>

definition fatal :: "thrown \<Rightarrow> event list" where
  "fatal err =
     (case err of
        Err name msg \<Rightarrow> [ConsoleError ''Error:'' (Text msg)]
      | ErrOwn msg _ \<Rightarrow> [ConsoleError ''Error:'' (Text msg)]
      | NonErr _ \<Rightarrow> []
      | NoString _ \<Rightarrow> [])
     @ [ProcessExit 1]"

text \<open>
  \<^verbatim>\<open>toLowerCase\<close> on the letters A to Z; every other character is kept. No character
  outside A to Z has one of the letters of \<^verbatim>\<open>exit\<close> as its lower case, so the
  comparison of line 331 is decided by these letters alone.
\<close>

definition toLowerCase_char :: "char \<Rightarrow> char" where
  "toLowerCase_char c =
     (if 65 \<le> (of_char c :: nat) \<and> (of_char c :: nat) \<le> 90
      then char_of ((of_char c :: nat) + 32) else c)"

definition toLowerCase :: "string \<Rightarrow> string" where
  "toLowerCase s = map toLowerCase_char s"

definition prompt :: string where
  "prompt = CHR 0x0A # ''Prompt: ''"

datatype loop_end = Broke | Threw thrown | NoInput

text \<open>
  Lines 328 to 348: the \<^verbatim>\<open>while\<close> loop of chat mode, over the lines that standard
  input delivers. When the lines run out the question is never answered.
\<close>

fun chatLoop :: "agent \<Rightarrow> string list \<Rightarrow> string list \<Rightarrow> event list \<times> loop_end" where
  "chatLoop agent hist [] = ([Question prompt], NoInput)"
| "chatLoop agent hist (userInput # later) =
     (if toLowerCase userInput = ''exit'' then ([Question prompt], Broke)
      else
        (case runTurn agent hist userInput of
           (evs, Some err) \<Rightarrow> (Question prompt # evs, Threw err)
         | (evs, None) \<Rightarrow>
             (case chatLoop agent (hist @ [userInput]) later of
                (rest, r) \<Rightarrow> (Question prompt # evs @ rest, r))))"

datatype status = Returned | Exited nat | Waiting | Running

definition chat_banner :: string where
  "chat_banner =
     ''Starting chat mode... Type '' @ [CHR 0x27] @ ''exit'' @ [CHR 0x27] @ '' to end.''"

text \<open>
  Lines 316 to 357: \<^verbatim>\<open>runChatMode\<close>. After \<^verbatim>\<open>break\<close> the \<^verbatim>\<open>finally\<close> block closes the
  reader and the function returns; after a throw the \<^verbatim>\<open>catch\<close> block ends the process.
\<close>

definition runChatMode :: "agent \<Rightarrow> string list \<Rightarrow> string list \<Rightarrow> event list \<times> status" where
  "runChatMode agent hist inputs =
     (case chatLoop agent hist inputs of
        (evs, Broke) \<Rightarrow> (ConsoleLog chat_banner # evs @ [RlClose], Returned)
      | (evs, Threw err) \<Rightarrow> (ConsoleLog chat_banner # evs @ fatal err, Exited 1)
      | (evs, NoInput) \<Rightarrow> (ConsoleLog chat_banner # evs, Waiting))"

definition thought :: string where
  "thought =
     ''Be creative and do something interesting on the blockchain. ''
     @ ''Choose an action or set of actions and execute it that highlights your abilities.''"

text \<open>
  Lines 280 to 307: the \<^verbatim>\<open>while\<close> loop of autonomous mode. It has no exit but the
  \<^verbatim>\<open>catch\<close> block; the first argument bounds the iterations that are observed, and
  \<open>Running\<close> is a loop that is still going after them.
\<close>

fun autonomousLoop :: "nat \<Rightarrow> agent \<Rightarrow> nat \<Rightarrow> string list \<Rightarrow> event list \<times> status" where
  "autonomousLoop 0 agent interval hist = ([], Running)"
| "autonomousLoop (Suc fuel) agent interval hist =
     (case runTurn agent hist thought of
        (evs, Some err) \<Rightarrow> (evs @ fatal err, Exited 1)
      | (evs, None) \<Rightarrow>
          (case autonomousLoop fuel agent interval (hist @ [thought]) of
             (rest, st) \<Rightarrow> (evs @ Sleep (interval * 1000) # rest, st)))"

definition runAutonomousMode :: "nat \<Rightarrow> agent \<Rightarrow> nat \<Rightarrow> string list \<Rightarrow> event list \<times> status" where
  "runAutonomousMode fuel agent interval hist =
     (case autonomousLoop fuel agent interval hist of
        (evs, st) \<Rightarrow> (ConsoleLog ''Starting autonomous mode...'' # evs, st))"

section \<open>Observations on a run\<close>

text \<open>The messages sent to the agent, in order.\<close>

fun sends :: "event list \<Rightarrow> string list" where
  "sends [] = []"
| "sends (AgentStream m # evs) = m # sends evs"
| "sends (_ # evs) = sends evs"

text \<open>The run reduced to its questions to the user and its messages to the agent.\<close>

fun dialogue :: "event list \<Rightarrow> event list" where
  "dialogue [] = []"
| "dialogue (AgentStream m # evs) = AgentStream m # dialogue evs"
| "dialogue (Question q # evs) = Question q # dialogue evs"
| "dialogue (_ # evs) = dialogue evs"

text \<open>Equality with \<^verbatim>\<open>exit\<close> up to the case of each letter.\<close>

fun equals_exit_ignoring_case :: "string \<Rightarrow> bool" where
  "equals_exit_ignoring_case [a, b, c, d] =
     ((a = CHR ''e'' \<or> a = CHR ''E'') \<and> (b = CHR ''x'' \<or> b = CHR ''X'')
      \<and> (c = CHR ''i'' \<or> c = CHR ''I'') \<and> (d = CHR ''t'' \<or> d = CHR ''T''))"
| "equals_exit_ignoring_case _ = False"

text \<open>None of the lines is an exit command and each of their turns ends without a throw.\<close>

fun turns_ok :: "agent \<Rightarrow> string list \<Rightarrow> string list \<Rightarrow> bool" where
  "turns_ok agent hist [] = True"
| "turns_ok agent hist (l # ls) =
     (\<not> equals_exit_ignoring_case l \<and> snd (runTurn agent hist l) = None
      \<and> turns_ok agent (hist @ [l]) ls)"

text \<open>The next \<open>k\<close> turns of autonomous mode end without a throw.\<close>

fun auto_ok :: "agent \<Rightarrow> string list \<Rightarrow> nat \<Rightarrow> bool" where
  "auto_ok agent hist 0 = True"
| "auto_ok agent hist (Suc k) =
     (snd (runTurn agent hist thought) = None \<and> auto_ok agent (hist @ [thought]) k)"

text \<open>What the loop prints for one chunk that has a first message or no message list.\<close>

fun chunk_output :: "chunk \<Rightarrow> event list" where
  "chunk_output (AgentChunk (content # _)) = [ConsoleLog content, ConsoleLog separator]"
| "chunk_output (ToolsChunk (content # _)) = [ConsoleLog content, ConsoleLog separator]"
| "chunk_output OtherChunk = [ConsoleLog separator]"
| "chunk_output _ = []"

fun printable :: "chunk \<Rightarrow> bool" where
  "printable (AgentChunk []) = False"
| "printable (ToolsChunk []) = False"
| "printable _ = True"

text \<open>The content the loop logs for a chunk, when it logs one.\<close>

fun first_content :: "chunk \<Rightarrow> string option" where
  "first_content (AgentChunk (content # _)) = Some content"
| "first_content (ToolsChunk (content # _)) = Some content"
| "first_content _ = None"

text \<open>Every entry of the filter that counts for a transfer event is absent or empty.\<close>

definition no_transfer_field :: "EventFilters option \<Rightarrow> bool" where
  "no_transfer_field ef =
     (\<not> truthy (opt_chain ef contract_address) \<and> \<not> truthy (opt_chain ef from_address)
      \<and> \<not> truthy (opt_chain ef to_address))"

section \<open>Concrete inputs\<close>

definition env_configured :: env where
  "env_configured = \<lparr>NETWORK_ID = Some ''base-mainnet''\<rparr>"

definition env_unset :: env where
  "env_unset = \<lparr>NETWORK_ID = None\<rparr>"

definition provider_accepts :: provider where
  "provider_accepts opts = Inr (Some ''Webhook{id: 42}'')"

definition provider_rejects :: provider where
  "provider_rejects opts =
     Inl (ErrOwn ''invalid webhook'' ''APIError{httpCode: 400, apiCode: invalid_request}'')"



definition any_url :: "string \<Rightarrow> bool" where
  "any_url s = True"

definition wallet_args :: CreateWebhookArgs where
  "wallet_args =
     \<lparr>notificationUri = ''https://example.com/hook'', eventType = ''wallet_activity'',
      eventTypeFilter = \<lparr>filter_addresses = [''0xAA'', ''0xBB'']\<rparr>, eventFilters = None\<rparr>"

definition contract_args :: CreateWebhookArgs where
  "contract_args =
     \<lparr>notificationUri = ''https://example.com/hook'',
      eventType = ''smart_contract_event_activity'',
      eventTypeFilter = \<lparr>filter_addresses = [''0xAA'', ''0xBB'']\<rparr>, eventFilters = None\<rparr>"

definition transfer_args :: "string \<Rightarrow> EventFilters option \<Rightarrow> CreateWebhookArgs" where
  "transfer_args t ef =
     \<lparr>notificationUri = ''https://example.com/hook'', eventType = t,
      eventTypeFilter = \<lparr>filter_addresses = []\<rparr>, eventFilters = ef\<rparr>"

definition only_contract :: EventFilters where
  "only_contract =
     \<lparr>addresses = None, from_address = None, to_address = None,
      contract_address = Some ''0xC0''\<rparr>"

definition no_keys :: EventFilters where
  "no_keys =
     \<lparr>addresses = None, from_address = None, to_address = None, contract_address = None\<rparr>"

definition blank_sender :: EventFilters where
  "blank_sender =
     \<lparr>addresses = None, from_address = Some [], to_address = None, contract_address = None\<rparr>"

definition two_chunk_agent :: agent where
  "two_chunk_agent msgs = Stream [AgentChunk [''hello''], ToolsChunk [''done'']] None"

definition failing_agent :: agent where
  "failing_agent msgs =
     (if length msgs < 2 then Stream [AgentChunk [''hello'']] None
      else Stream [ToolsChunk [''partial'']] (Some (Err ''Error'' ''socket hang up'')))"

section \<open>Facts about createWebhook\<close>

lemma createWebhook_configured:
  "NETWORK_ID e = Some n \<Longrightarrow> n \<noteq> [] \<Longrightarrow>
   createWebhook e create args =
     (case buildWebhookOptions n args of
        Inl err \<Rightarrow> createWebhook_catch err []
      | Inr opts \<Rightarrow>
          (case create opts of
             Inl err \<Rightarrow> createWebhook_catch err [WebhookCreate opts]
           | Inr webhook \<Rightarrow>
               (Returns (''The webhook was successfully created: ''
                         @ (case webhook of None \<Rightarrow> ''undefined'' | Some s \<Rightarrow> s)
                         @ [CHR 0x0A, CHR 0x0A]),
                [WebhookCreate opts])))"
  by (simp add: createWebhook_def createWebhook_try_def split: sum.splits)

lemma createWebhook_unconfigured:
  "\<not> truthy (NETWORK_ID e) \<Longrightarrow>
   createWebhook_try e create args = (Inl not_configured, [])"
  by (simp add: createWebhook_try_def truthy_def split: option.splits)

lemma createWebhook_catch_events:
  "snd (createWebhook_catch err evs) =
     evs @ [ConsoleError ''Failed to create webhook:'' (Obj err)]"
  by (simp add: createWebhook_catch_def)


lemma submitted_configured:
  "NETWORK_ID e = Some n \<Longrightarrow> n \<noteq> [] \<Longrightarrow>
   submitted (snd (createWebhook e create args)) =
     (case buildWebhookOptions n args of Inl err \<Rightarrow> [] | Inr opts \<Rightarrow> [opts])"
  by (simp add: createWebhook_configured createWebhook_catch_events split: sum.splits)

lemma buildWebhookOptions_transfer:
  "eventType args = ''erc20_transfer'' \<or> eventType args = ''erc721_transfer'' \<Longrightarrow>
   buildWebhookOptions n args =
     Inr (JObject [(''networkId'', JString n),
                   (''notificationUri'', JString (notificationUri args)),
                   (''eventType'', JString (eventType args)),
                   (''eventFilters'', JArray [JObject (transferFilterObject (eventFilters args))])])"
  by (auto simp: buildWebhookOptions_def)

lemma transferFilterObject_entries:
  "(k, v) \<in> set (transferFilterObject ef) \<longleftrightarrow>
     (\<exists>f s. ef = Some f \<and> v = JString s \<and> s \<noteq> []
        \<and> (k = ''contract_address'' \<and> contract_address f = Some s
           \<or> k = ''from_address'' \<and> from_address f = Some s
           \<or> k = ''to_address'' \<and> to_address f = Some s))"
  by (auto simp: transferFilterObject_def spread_field_def opt_chain_def
           split: option.splits if_splits)

lemma transferFilterObject_distinct: "distinct (map fst (transferFilterObject ef))"
  by (auto simp: transferFilterObject_def spread_field_def opt_chain_def
           split: option.splits if_splits)

lemma transferFilterObject_empty:
  "no_transfer_field ef \<Longrightarrow> transferFilterObject ef = []"
  by (auto simp: transferFilterObject_def spread_field_def opt_chain_def no_transfer_field_def
        truthy_def split: option.splits if_splits)

lemma object_keys_empty:
  "object_keys f = [] \<longleftrightarrow>
     addresses f = None \<and> from_address f = None \<and> to_address f = None
     \<and> contract_address f = None"
  by (simp add: object_keys_def split: option.splits)

lemma EventFilters_issues_cases:
  "EventFilters_issues f =
     (if addresses f = None \<and> from_address f = None \<and> to_address f = None
         \<and> contract_address f = None
      then [Custom ''At least one filter must be provided''] else [])"
  using object_keys_empty [of f] by (simp add: EventFilters_issues_def)

section \<open>Transfer payloads\<close>

text \<open>
  C1. With the network id configured and the event type \<^verbatim>\<open>erc20_transfer\<close> or
  \<^verbatim>\<open>erc721_transfer\<close>, \<^verbatim>\<open>createWebhook\<close> submits a payload whose \<^verbatim>\<open>eventFilters\<close> is a
  list of one object. A key is in that object exactly when it is one of
  \<^verbatim>\<open>contract_address\<close>, \<^verbatim>\<open>from_address\<close>, \<^verbatim>\<open>to_address\<close> and the input holds a
  non-empty string for it, which is then its value; no key occurs twice, and no key has
  the value null or the empty string. When only \<^verbatim>\<open>contract_address\<close> is set, the object
  is that one entry.
\<close>

theorem C1_transfer_payload:
  "NETWORK_ID e = Some n \<Longrightarrow> n \<noteq> [] \<Longrightarrow>
   eventType args = ''erc20_transfer'' \<or> eventType args = ''erc721_transfer'' \<Longrightarrow>
     submitted (snd (createWebhook e create args)) =
       [JObject [(''networkId'', JString n),
                 (''notificationUri'', JString (notificationUri args)),
                 (''eventType'', JString (eventType args)),
                 (''eventFilters'', JArray [JObject (transferFilterObject (eventFilters args))])]]
     \<and> distinct (map fst (transferFilterObject (eventFilters args)))
     \<and> (\<forall>k v. (k, v) \<in> set (transferFilterObject (eventFilters args)) \<longleftrightarrow>
           (\<exists>f s. eventFilters args = Some f \<and> v = JString s \<and> s \<noteq> []
              \<and> (k = ''contract_address'' \<and> contract_address f = Some s
                 \<or> k = ''from_address'' \<and> from_address f = Some s
                 \<or> k = ''to_address'' \<and> to_address f = Some s)))
     \<and> (\<forall>k. (k, JNull) \<notin> set (transferFilterObject (eventFilters args))
             \<and> (k, JString []) \<notin> set (transferFilterObject (eventFilters args)))
     \<and> (\<forall>f c. eventFilters args = Some f \<and> contract_address f = Some c \<and> c \<noteq> []
               \<and> from_address f = None \<and> to_address f = None \<longrightarrow>
             transferFilterObject (eventFilters args) = [(''contract_address'', JString c)])"
proof (intro conjI)
  assume cfg: "NETWORK_ID e = Some n" "n \<noteq> []"
    and ty: "eventType args = ''erc20_transfer'' \<or> eventType args = ''erc721_transfer''"
  show "submitted (snd (createWebhook e create args)) =
       [JObject [(''networkId'', JString n),
                 (''notificationUri'', JString (notificationUri args)),
                 (''eventType'', JString (eventType args)),
                 (''eventFilters'', JArray [JObject (transferFilterObject (eventFilters args))])]]"
    by (simp add: submitted_configured [OF cfg] buildWebhookOptions_transfer [OF ty])
next
  show "distinct (map fst (transferFilterObject (eventFilters args)))"
    by (rule transferFilterObject_distinct)
next
  show "\<forall>k v. (k, v) \<in> set (transferFilterObject (eventFilters args)) \<longleftrightarrow>
           (\<exists>f s. eventFilters args = Some f \<and> v = JString s \<and> s \<noteq> []
              \<and> (k = ''contract_address'' \<and> contract_address f = Some s
                 \<or> k = ''from_address'' \<and> from_address f = Some s
                 \<or> k = ''to_address'' \<and> to_address f = Some s))"
    by (simp only: transferFilterObject_entries) simp
next
  show "\<forall>k. (k, JNull) \<notin> set (transferFilterObject (eventFilters args))
             \<and> (k, JString []) \<notin> set (transferFilterObject (eventFilters args))"
    by (simp add: transferFilterObject_entries)
next
  show "\<forall>f c. eventFilters args = Some f \<and> contract_address f = Some c \<and> c \<noteq> []
               \<and> from_address f = None \<and> to_address f = None \<longrightarrow>
             transferFilterObject (eventFilters args) = [(''contract_address'', JString c)]"
    by (simp add: transferFilterObject_def spread_field_def opt_chain_def)
qed

theorem C1_transfer_payload_witness:
  "NETWORK_ID env_configured = Some ''base-mainnet''
   \<and> eventType (transfer_args ''erc20_transfer'' (Some only_contract)) = ''erc20_transfer''
   \<and> submitted (snd (createWebhook env_configured provider_accepts
        (transfer_args ''erc20_transfer'' (Some only_contract)))) =
       [JObject [(''networkId'', JString ''base-mainnet''),
                 (''notificationUri'', JString ''https://example.com/hook''),
                 (''eventType'', JString ''erc20_transfer''),
                 (''eventFilters'', JArray [JObject [(''contract_address'', JString ''0xC0'')]])]]"
  using C1_transfer_payload [of env_configured "''base-mainnet''"
          "transfer_args ''erc20_transfer'' (Some only_contract)" provider_accepts]
  by (simp add: env_configured_def transfer_args_def only_contract_def)

section \<open>Validation of the event filters\<close>

text \<open>
  C2, as stated, fails. A call for \<^verbatim>\<open>erc20_transfer\<close> that omits \<^verbatim>\<open>eventFilters\<close>, and
  a call whose filter object holds only an empty \<^verbatim>\<open>from_address\<close>, have no populated
  field; both pass the schema, \<^verbatim>\<open>createWebhook\<close> runs, and the payload with one empty
  filter object is submitted.
\<close>

theorem C2_counterexample:
  "populated_fields (eventFilters (transfer_args ''erc20_transfer'' None)) = []
   \<and> create_webhook_tool any_url env_configured provider_accepts
       (transfer_args ''erc20_transfer'' None) =
     Invoked (Returns (''The webhook was successfully created: Webhook{id: 42}''
                       @ [CHR 0x0A, CHR 0x0A]),
              [WebhookCreate
                 (JObject [(''networkId'', JString ''base-mainnet''),
                           (''notificationUri'', JString ''https://example.com/hook''),
                           (''eventType'', JString ''erc20_transfer''),
                           (''eventFilters'', JArray [JObject []])])])
   \<and> populated_fields (eventFilters (transfer_args ''erc20_transfer'' (Some blank_sender))) = []
   \<and> create_webhook_tool any_url env_configured provider_accepts
       (transfer_args ''erc20_transfer'' (Some blank_sender)) =
     Invoked (Returns (''The webhook was successfully created: Webhook{id: 42}''
                       @ [CHR 0x0A, CHR 0x0A]),
              [WebhookCreate
                 (JObject [(''networkId'', JString ''base-mainnet''),
                           (''notificationUri'', JString ''https://example.com/hook''),
                           (''eventType'', JString ''erc20_transfer''),
                           (''eventFilters'', JArray [JObject []])])])"
  by (simp add: populated_fields_def transfer_args_def blank_sender_def truthy_def
        create_webhook_tool_def CreateWebhookInput_issues_def any_url_def WebhookEventType_def
        EventFilters_issues_def object_keys_def createWebhook_def createWebhook_try_def
        env_configured_def buildWebhookOptions_def transferFilterObject_def spread_field_def
        opt_chain_def provider_accepts_def)

text \<open>
  C2, amended. The refinement of \<^verbatim>\<open>EventFilters\<close> raises its issue exactly for a filter
  object in which none of the four recognized keys is present, and a call that supplies
  such an object is rejected with the message \<^verbatim>\<open>At least one filter must be provided\<close>
  before \<^verbatim>\<open>createWebhook\<close> runs. The check counts the keys of a supplied object;
  \<^verbatim>\<open>eventFilters\<close> itself is optional.
\<close>

theorem C2_no_key_rejected:
  "(EventFilters_issues f \<noteq> [] \<longleftrightarrow>
      addresses f = None \<and> from_address f = None \<and> to_address f = None
      \<and> contract_address f = None)
   \<and> (eventFilters raw = Some f \<and> addresses f = None \<and> from_address f = None
        \<and> to_address f = None \<and> contract_address f = None \<longrightarrow>
      (\<exists>issues. create_webhook_tool is_url e create raw = Rejected issues
         \<and> Custom ''At least one filter must be provided'' \<in> set issues))"
  by (auto simp: EventFilters_issues_cases create_webhook_tool_def CreateWebhookInput_issues_def
           split: list.splits)

theorem C2_no_key_rejected_witness:
  "EventFilters_issues no_keys \<noteq> []
   \<and> create_webhook_tool any_url env_configured provider_accepts
       (transfer_args ''erc20_transfer'' (Some no_keys)) =
     Rejected [Custom ''At least one filter must be provided'']"
  using C2_no_key_rejected [of no_keys "transfer_args ''erc20_transfer'' (Some no_keys)"
          any_url env_configured provider_accepts]
  by (simp add: no_keys_def transfer_args_def create_webhook_tool_def
        CreateWebhookInput_issues_def any_url_def WebhookEventType_def EventFilters_issues_def
        object_keys_def)

section \<open>Address payloads\<close>

text \<open>
  C3. With the network id configured, a \<^verbatim>\<open>wallet_activity\<close> request is submitted with
  an \<^verbatim>\<open>eventTypeFilter\<close> that holds the input addresses unchanged under \<^verbatim>\<open>addresses\<close>
  and \<^verbatim>\<open>wallet_id\<close> set to the empty string; a \<^verbatim>\<open>smart_contract_event_activity\<close>
  request holds the same addresses under \<^verbatim>\<open>contract_addresses\<close> and nothing else.
\<close>

theorem C3_address_payloads:
  "NETWORK_ID e = Some n \<Longrightarrow> n \<noteq> [] \<Longrightarrow>
     (eventType args = ''wallet_activity'' \<longrightarrow>
        submitted (snd (createWebhook e create args)) =
          [JObject [(''networkId'', JString n),
                    (''notificationUri'', JString (notificationUri args)),
                    (''eventType'', JString ''wallet_activity''),
                    (''eventTypeFilter'',
                     JObject [(''addresses'',
                               JArray (map JString (filter_addresses (eventTypeFilter args)))),
                              (''wallet_id'', JString [])])]])
     \<and> (eventType args = ''smart_contract_event_activity'' \<longrightarrow>
        submitted (snd (createWebhook e create args)) =
          [JObject [(''networkId'', JString n),
                    (''notificationUri'', JString (notificationUri args)),
                    (''eventType'', JString ''smart_contract_event_activity''),
                    (''eventTypeFilter'',
                     JObject [(''contract_addresses'',
                               JArray (map JString (filter_addresses (eventTypeFilter args))))])]])"
  by (auto simp: createWebhook_def createWebhook_try_def createWebhook_catch_def
           buildWebhookOptions_def split: sum.splits)

theorem C3_address_payloads_witness:
  "NETWORK_ID env_configured = Some ''base-mainnet''
   \<and> eventType wallet_args = ''wallet_activity''
   \<and> submitted (snd (createWebhook env_configured provider_accepts wallet_args)) =
       [JObject [(''networkId'', JString ''base-mainnet''),
                 (''notificationUri'', JString ''https://example.com/hook''),
                 (''eventType'', JString ''wallet_activity''),
                 (''eventTypeFilter'',
                  JObject [(''addresses'', JArray [JString ''0xAA'', JString ''0xBB'']),
                           (''wallet_id'', JString [])])]]
   \<and> eventType contract_args = ''smart_contract_event_activity''
   \<and> submitted (snd (createWebhook env_configured provider_rejects contract_args)) =
       [JObject [(''networkId'', JString ''base-mainnet''),
                 (''notificationUri'', JString ''https://example.com/hook''),
                 (''eventType'', JString ''smart_contract_event_activity''),
                 (''eventTypeFilter'',
                  JObject [(''contract_addresses'',
                            JArray [JString ''0xAA'', JString ''0xBB''])])]]"
  using C3_address_payloads [of env_configured "''base-mainnet''" wallet_args provider_accepts]
        C3_address_payloads [of env_configured "''base-mainnet''" contract_args provider_rejects]
  by (simp add: env_configured_def wallet_args_def contract_args_def)

section \<open>Errors stay inside createWebhook\<close>




text \<open>
  C6. For every event type outside the four values of the enumeration, the
  \<^verbatim>\<open>switch\<close> throws an error whose message is \<^verbatim>\<open>Unsupported event type: \<close> followed by
  the value. With the network id configured, \<^verbatim>\<open>createWebhook\<close> returns that error as
  the string \<^verbatim>\<open>Error: Error: Unsupported event type: \<close> followed by the value, and
  nothing is submitted to the provider.
\<close>

theorem C6_unsupported_event_type:
  "eventType args \<notin> set WebhookEventType \<Longrightarrow>
     buildWebhookOptions n args =
       Inl (Err ''Error'' (''Unsupported event type: '' @ eventType args))
     \<and> (NETWORK_ID e = Some n \<and> n \<noteq> [] \<longrightarrow>
          createWebhook e create args =
            (Returns (''Error: Error: Unsupported event type: '' @ eventType args),
             [ConsoleError ''Failed to create webhook:''
                (Obj (Err ''Error'' (''Unsupported event type: '' @ eventType args)))]))"
proof -
  assume out: "eventType args \<notin> set WebhookEventType"
  have b: "buildWebhookOptions n args =
       Inl (Err ''Error'' (''Unsupported event type: '' @ eventType args))"
    using out by (simp add: buildWebhookOptions_def WebhookEventType_def)
  show ?thesis
    using b by (simp add: createWebhook_configured createWebhook_catch_def)
qed

theorem C6_unsupported_event_type_witness:
  "eventType (transfer_args ''erc1155_transfer'' None) \<notin> set WebhookEventType
   \<and> createWebhook env_configured provider_accepts (transfer_args ''erc1155_transfer'' None) =
       (Returns ''Error: Error: Unsupported event type: erc1155_transfer'',
        [ConsoleError ''Failed to create webhook:''
           (Obj (Err ''Error'' ''Unsupported event type: erc1155_transfer''))])"
  using C6_unsupported_event_type [of "transfer_args ''erc1155_transfer'' None"
          "''base-mainnet''" env_configured provider_accepts]
  by (simp add: transfer_args_def WebhookEventType_def env_configured_def)

text \<open>
  C7. When \<^verbatim>\<open>NETWORK_ID\<close> is unset or empty, \<^verbatim>\<open>createWebhook\<close> throws the error
  \<^verbatim>\<open>Network ID is not configured in environment variables\<close> inside its \<^verbatim>\<open>try\<close> block,
  submits nothing and reports that error, while the agent kit is configured with the
  default \<^verbatim>\<open>base-sepolia\<close>. When it is set, every submitted payload carries it as
  \<^verbatim>\<open>networkId\<close>, whatever the arguments of the call are.
\<close>

theorem C7_network_id_from_configuration:
  "(\<not> truthy (NETWORK_ID e) \<longrightarrow>
      createWebhook_try e create args =
        (Inl (Err ''Error'' ''Network ID is not configured in environment variables''), [])
      \<and> createWebhook e create args =
        (Returns ''Error: Error: Network ID is not configured in environment variables'',
         [ConsoleError ''Failed to create webhook:''
            (Obj (Err ''Error'' ''Network ID is not configured in environment variables''))])
      \<and> initializeAgent_networkId e = ''base-sepolia'')
   \<and> (NETWORK_ID e = Some n \<and> n \<noteq> [] \<longrightarrow>
        (\<forall>p \<in> set (submitted (snd (createWebhook e create args))).
           \<exists>fields. p = JObject ((''networkId'', JString n) # fields))
        \<and> initializeAgent_networkId e = n)"
proof (intro conjI impI)
  assume off: "\<not> truthy (NETWORK_ID e)"
  show t: "createWebhook_try e create args =
        (Inl (Err ''Error'' ''Network ID is not configured in environment variables''), [])"
    using createWebhook_unconfigured [OF off] by (simp add: not_configured_def)
  show "createWebhook e create args =
        (Returns ''Error: Error: Network ID is not configured in environment variables'',
         [ConsoleError ''Failed to create webhook:''
            (Obj (Err ''Error'' ''Network ID is not configured in environment variables''))])"
    by (simp add: createWebhook_def createWebhook_catch_def t)
  show "initializeAgent_networkId e = ''base-sepolia''"
    using off by (simp add: initializeAgent_networkId_def truthy_def split: option.splits)
next
  assume on: "NETWORK_ID e = Some n \<and> n \<noteq> []"
  show "\<forall>p \<in> set (submitted (snd (createWebhook e create args))).
           \<exists>fields. p = JObject ((''networkId'', JString n) # fields)"
    using on
    by (auto simp: createWebhook_configured createWebhook_catch_events
             buildWebhookOptions_def Let_def split: sum.splits if_splits)
  show "initializeAgent_networkId e = n"
    using on by (simp add: initializeAgent_networkId_def)
qed

theorem C7_network_id_from_configuration_witness:
  "\<not> truthy (NETWORK_ID env_unset)
   \<and> createWebhook env_unset provider_accepts wallet_args =
       (Returns ''Error: Error: Network ID is not configured in environment variables'',
        [ConsoleError ''Failed to create webhook:''
           (Obj (Err ''Error'' ''Network ID is not configured in environment variables''))])
   \<and> initializeAgent_networkId env_unset = ''base-sepolia''
   \<and> NETWORK_ID env_configured = Some ''base-mainnet''
   \<and> initializeAgent_networkId env_configured = ''base-mainnet''
   \<and> submitted (snd (createWebhook env_configured provider_accepts wallet_args)) =
       [JObject ((''networkId'', JString ''base-mainnet'')
                 # [(''notificationUri'', JString ''https://example.com/hook''),
                    (''eventType'', JString ''wallet_activity''),
                    (''eventTypeFilter'',
                     JObject [(''addresses'', JArray [JString ''0xAA'', JString ''0xBB'']),
                              (''wallet_id'', JString [])])])]"
  using C7_network_id_from_configuration
          [where e = env_unset and create = provider_accepts and args = wallet_args and n = "[]"]
        C7_network_id_from_configuration
          [where e = env_configured and create = provider_accepts and args = wallet_args
             and n = "''base-mainnet''"]
  by (simp add: env_unset_def env_configured_def truthy_def createWebhook_def
        createWebhook_try_def wallet_args_def buildWebhookOptions_def provider_accepts_def)

text \<open>
  C10. With the network id configured and the event type \<^verbatim>\<open>erc20_transfer\<close> or
  \<^verbatim>\<open>erc721_transfer\<close>, a call whose \<^verbatim>\<open>eventFilters\<close> is omitted, or holds no non-empty
  \<^verbatim>\<open>contract_address\<close>, \<^verbatim>\<open>from_address\<close> or \<^verbatim>\<open>to_address\<close>, is not refused by
  \<^verbatim>\<open>createWebhook\<close>: the payload with \<^verbatim>\<open>eventFilters\<close> equal to a list of one empty
  object is submitted to the provider. The schema raises no issue for the omitted
  argument, so that the tool calls \<^verbatim>\<open>createWebhook\<close> whenever the URI is accepted.
\<close>

theorem C10_empty_filter_submitted:
  "NETWORK_ID e = Some n \<Longrightarrow> n \<noteq> [] \<Longrightarrow>
   eventType args = ''erc20_transfer'' \<or> eventType args = ''erc721_transfer'' \<Longrightarrow>
   no_transfer_field (eventFilters args) \<Longrightarrow>
     submitted (snd (createWebhook e create args)) =
       [JObject [(''networkId'', JString n),
                 (''notificationUri'', JString (notificationUri args)),
                 (''eventType'', JString (eventType args)),
                 (''eventFilters'', JArray [JObject []])]]
     \<and> no_transfer_field None
     \<and> (eventFilters args = None \<longrightarrow>
          CreateWebhookInput_issues is_url args =
            (if is_url (notificationUri args) then [] else [InvalidUrl]))
     \<and> (eventFilters args = None \<and> is_url (notificationUri args) \<longrightarrow>
          create_webhook_tool is_url e create args = Invoked (createWebhook e create args))"
proof (intro conjI)
  assume cfg: "NETWORK_ID e = Some n" "n \<noteq> []"
    and ty: "eventType args = ''erc20_transfer'' \<or> eventType args = ''erc721_transfer''"
    and emp: "no_transfer_field (eventFilters args)"
  show "submitted (snd (createWebhook e create args)) =
       [JObject [(''networkId'', JString n),
                 (''notificationUri'', JString (notificationUri args)),
                 (''eventType'', JString (eventType args)),
                 (''eventFilters'', JArray [JObject []])]]"
    by (simp add: submitted_configured [OF cfg] buildWebhookOptions_transfer [OF ty]
          transferFilterObject_empty [OF emp])
  show "no_transfer_field None"
    by (simp add: no_transfer_field_def opt_chain_def truthy_def)
  have enum: "eventType args \<in> set WebhookEventType"
    using ty by (auto simp: WebhookEventType_def)
  show iss: "eventFilters args = None \<longrightarrow>
          CreateWebhookInput_issues is_url args =
            (if is_url (notificationUri args) then [] else [InvalidUrl])"
    using enum by (simp add: CreateWebhookInput_issues_def)
  show "eventFilters args = None \<and> is_url (notificationUri args) \<longrightarrow>
          create_webhook_tool is_url e create args = Invoked (createWebhook e create args)"
    using iss by (simp add: create_webhook_tool_def)
qed

theorem C10_empty_filter_submitted_witness:
  "NETWORK_ID env_configured = Some ''base-mainnet''
   \<and> no_transfer_field (eventFilters (transfer_args ''erc721_transfer'' None))
   \<and> create_webhook_tool any_url env_configured provider_accepts
        (transfer_args ''erc721_transfer'' None) =
       Invoked (createWebhook env_configured provider_accepts
                  (transfer_args ''erc721_transfer'' None))
   \<and> submitted (snd (createWebhook env_configured provider_accepts
        (transfer_args ''erc721_transfer'' None))) =
       [JObject [(''networkId'', JString ''base-mainnet''),
                 (''notificationUri'', JString ''https://example.com/hook''),
                 (''eventType'', JString ''erc721_transfer''),
                 (''eventFilters'', JArray [JObject []])]]"
  using C10_empty_filter_submitted [of env_configured "''base-mainnet''"
          "transfer_args ''erc721_transfer'' None" provider_accepts any_url]
  by (simp add: env_configured_def transfer_args_def any_url_def no_transfer_field_def
        opt_chain_def truthy_def)

section \<open>Facts about the session drivers\<close>

lemma of_char_toLowerCase_char:
  "(of_char (toLowerCase_char c) :: nat) =
     (if 65 \<le> (of_char c :: nat) \<and> (of_char c :: nat) \<le> 90 then of_char c + 32 else of_char c)"
  by (simp add: toLowerCase_char_def)

lemma char_eq_code: "c = d \<longleftrightarrow> (of_char c :: nat) = of_char d"
  by simp

lemma lower_is_letter:
  "(of_char d :: nat) = k \<Longrightarrow> 97 \<le> k \<Longrightarrow> k \<le> 122 \<Longrightarrow>
   toLowerCase_char c = d \<longleftrightarrow> c = d \<or> (of_char c :: nat) + 32 = k"
  unfolding char_eq_code [of _ d] of_char_toLowerCase_char
  by auto

lemma lower_e: "toLowerCase_char c = CHR ''e'' \<longleftrightarrow> c = CHR ''e'' \<or> c = CHR ''E''"
  using lower_is_letter [of "CHR ''e''" 101 c] by (auto simp: char_eq_code [of c "CHR ''E''"])

lemma lower_x: "toLowerCase_char c = CHR ''x'' \<longleftrightarrow> c = CHR ''x'' \<or> c = CHR ''X''"
  using lower_is_letter [of "CHR ''x''" 120 c] by (auto simp: char_eq_code [of c "CHR ''X''"])

lemma lower_i: "toLowerCase_char c = CHR ''i'' \<longleftrightarrow> c = CHR ''i'' \<or> c = CHR ''I''"
  using lower_is_letter [of "CHR ''i''" 105 c] by (auto simp: char_eq_code [of c "CHR ''I''"])

lemma lower_t: "toLowerCase_char c = CHR ''t'' \<longleftrightarrow> c = CHR ''t'' \<or> c = CHR ''T''"
  using lower_is_letter [of "CHR ''t''" 116 c] by (auto simp: char_eq_code [of c "CHR ''T''"])

lemma toLowerCase_exit:
  "toLowerCase l = ''exit'' \<longleftrightarrow> equals_exit_ignoring_case l"
  by (cases l rule: equals_exit_ignoring_case.cases)
     (simp_all add: toLowerCase_def lower_e lower_x lower_i lower_t)

lemma sends_append: "sends (xs @ ys) = sends xs @ sends ys"
  by (induction xs rule: sends.induct) simp_all

lemma dialogue_append: "dialogue (xs @ ys) = dialogue xs @ dialogue ys"
  by (induction xs rule: dialogue.induct) simp_all

lemma print_chunk_quiet:
  "print_chunk c = Inr printed \<Longrightarrow> sends printed = [] \<and> dialogue printed = []"
  by (cases c rule: print_chunk.cases) auto

lemma consume_quiet:
  "sends (fst (consume cs fin)) = [] \<and> dialogue (fst (consume cs fin)) = []"
proof (induction cs)
  case Nil
  then show ?case by simp
next
  case (Cons c cs)
  then show ?case
    by (auto simp: sends_append dialogue_append split: sum.splits prod.splits
             dest: print_chunk_quiet)
qed

lemma runTurn_sends:
  "sends (fst (runTurn agent hist msg)) = [msg]
   \<and> dialogue (fst (runTurn agent hist msg)) = [AgentStream msg]"
  using consume_quiet
  by (auto simp: runTurn_def split: response.splits prod.splits)
     (metis fst_conv)+

lemma fatal_quiet: "sends (fatal err) = [] \<and> dialogue (fatal err) = []"
  by (cases err) (simp_all add: fatal_def)

lemma fatal_last: "last (fatal err) = ProcessExit 1"
  by (simp add: fatal_def)

lemma fatal_nonempty: "fatal err \<noteq> []"
  by (simp add: fatal_def)

lemma chatLoop_exit:
  "equals_exit_ignoring_case l \<Longrightarrow> chatLoop agent hist (l # later) = ([Question prompt], Broke)"
  by (simp add: toLowerCase_exit)

lemma chatLoop_throw:
  "\<not> equals_exit_ignoring_case l \<Longrightarrow> snd (runTurn agent hist l) = Some err \<Longrightarrow>
   chatLoop agent hist (l # later) = (Question prompt # fst (runTurn agent hist l), Threw err)"
  by (cases "runTurn agent hist l") (simp add: toLowerCase_exit)

lemma chatLoop_turn:
  "\<not> equals_exit_ignoring_case l \<Longrightarrow> snd (runTurn agent hist l) = None \<Longrightarrow>
   chatLoop agent hist (l # later) =
     (Question prompt # fst (runTurn agent hist l) @ fst (chatLoop agent (hist @ [l]) later),
      snd (chatLoop agent (hist @ [l]) later))"
  by (cases "runTurn agent hist l") (simp add: toLowerCase_exit split: prod.splits)

lemma chatLoop_prefix:
  "turns_ok agent hist pre \<Longrightarrow>
   \<exists>tr. dialogue tr = concat (map (\<lambda>m. [Question prompt, AgentStream m]) pre)
      \<and> sends tr = pre
      \<and> chatLoop agent hist (pre @ rest) =
          (tr @ fst (chatLoop agent (hist @ pre) rest), snd (chatLoop agent (hist @ pre) rest))"
proof (induction pre arbitrary: hist)
  case Nil
  show ?case by (rule exI [of _ "[]"]) simp
next
  case (Cons l pre)
  from Cons.prems have ne: "\<not> equals_exit_ignoring_case l"
    and ok: "snd (runTurn agent hist l) = None"
    and rest_ok: "turns_ok agent (hist @ [l]) pre"
    by simp_all
  from Cons.IH [OF rest_ok] obtain tr where
    d: "dialogue tr = concat (map (\<lambda>m. [Question prompt, AgentStream m]) pre)"
    and s: "sends tr = pre"
    and c: "chatLoop agent (hist @ [l]) (pre @ rest) =
          (tr @ fst (chatLoop agent ((hist @ [l]) @ pre) rest),
           snd (chatLoop agent ((hist @ [l]) @ pre) rest))"
    by blast
  let ?tr = "Question prompt # fst (runTurn agent hist l) @ tr"
  have "dialogue ?tr = concat (map (\<lambda>m. [Question prompt, AgentStream m]) (l # pre))"
    using d runTurn_sends [of agent hist l] by (simp add: dialogue_append)
  moreover have "sends ?tr = l # pre"
    using s runTurn_sends [of agent hist l] by (simp add: sends_append)
  moreover have "chatLoop agent hist ((l # pre) @ rest) =
          (?tr @ fst (chatLoop agent (hist @ l # pre) rest),
           snd (chatLoop agent (hist @ l # pre) rest))"
    using chatLoop_turn [OF ne ok, of "pre @ rest"] c by simp
  ultimately show ?case by blast
qed


lemma autonomousLoop_throw:
  "snd (runTurn agent hist thought) = Some err \<Longrightarrow>
   autonomousLoop (Suc fuel) agent interval hist =
     (fst (runTurn agent hist thought) @ fatal err, Exited 1)"
  by (cases "runTurn agent hist thought") simp

lemma autonomousLoop_turn:
  "snd (runTurn agent hist thought) = None \<Longrightarrow>
   autonomousLoop (Suc fuel) agent interval hist =
     (fst (runTurn agent hist thought) @ Sleep (interval * 1000)
        # fst (autonomousLoop fuel agent interval (hist @ [thought])),
      snd (autonomousLoop fuel agent interval (hist @ [thought])))"
  by (cases "runTurn agent hist thought") (simp split: prod.splits)

lemma autonomousLoop_prefix:
  "auto_ok agent hist k \<Longrightarrow>
   \<exists>tr. sends tr = replicate k thought
      \<and> autonomousLoop (k + fuel) agent interval hist =
          (tr @ fst (autonomousLoop fuel agent interval (hist @ replicate k thought)),
           snd (autonomousLoop fuel agent interval (hist @ replicate k thought)))"
proof (induction k arbitrary: hist)
  case 0
  show ?case by (rule exI [of _ "[]"]) simp
next
  case (Suc k)
  from Suc.prems have ok: "snd (runTurn agent hist thought) = None"
    and rest_ok: "auto_ok agent (hist @ [thought]) k"
    by simp_all
  from Suc.IH [OF rest_ok] obtain tr where
    s: "sends tr = replicate k thought"
    and c: "autonomousLoop (k + fuel) agent interval (hist @ [thought]) =
          (tr @ fst (autonomousLoop fuel agent interval ((hist @ [thought]) @ replicate k thought)),
           snd (autonomousLoop fuel agent interval ((hist @ [thought]) @ replicate k thought)))"
    by blast
  let ?tr = "fst (runTurn agent hist thought) @ Sleep (interval * 1000) # tr"
  have "sends ?tr = replicate (Suc k) thought"
    using s runTurn_sends [of agent hist thought] by (simp add: sends_append)
  moreover have "autonomousLoop (Suc k + fuel) agent interval hist =
          (?tr @ fst (autonomousLoop fuel agent interval (hist @ replicate (Suc k) thought)),
           snd (autonomousLoop fuel agent interval (hist @ replicate (Suc k) thought)))"
    using autonomousLoop_turn [OF ok, of "k + fuel" interval] c by simp
  ultimately show ?case by blast
qed

lemma consume_printable:
  "list_all printable cs \<Longrightarrow> consume cs fin = (concat (map chunk_output cs), fin)"
proof (induction cs)
  case Nil
  then show ?case by simp
next
  case (Cons c cs)
  then show ?case by (cases c rule: print_chunk.cases) simp_all
qed

lemma separators_per_chunk:
  "list_all printable cs \<Longrightarrow> list_all (\<lambda>c. first_content c \<noteq> Some separator) cs \<Longrightarrow>
   count_list (concat (map chunk_output cs)) (ConsoleLog separator) = length cs"
proof (induction cs)
  case Nil
  then show ?case by simp
next
  case (Cons c cs)
  then show ?case by (cases c rule: print_chunk.cases) simp_all
qed


lemma runChatMode_throw:
  assumes ne: "\<not> equals_exit_ignoring_case l"
    and th: "snd (runTurn agent (hist @ pre) l) = Some err"
    and c: "chatLoop agent hist (pre @ l # later) =
          (tr @ fst (chatLoop agent (hist @ pre) (l # later)),
           snd (chatLoop agent (hist @ pre) (l # later)))"
  shows "runChatMode agent hist (pre @ l # later) =
      (ConsoleLog chat_banner # (tr @ Question prompt # fst (runTurn agent (hist @ pre) l))
         @ fatal err, Exited 1)"
proof -
  have t: "chatLoop agent (hist @ pre) (l # later) =
      (Question prompt # fst (runTurn agent (hist @ pre) l), Threw err)"
    by (rule chatLoop_throw [OF ne th])
  have "chatLoop agent hist (pre @ l # later) =
      (tr @ Question prompt # fst (runTurn agent (hist @ pre) l), Threw err)"
    unfolding c t by simp
  then show ?thesis
    unfolding runChatMode_def by simp
qed

lemma runChatMode_exit:
  assumes ex: "equals_exit_ignoring_case l"
    and c: "chatLoop agent hist (pre @ l # later) =
          (tr @ fst (chatLoop agent (hist @ pre) (l # later)),
           snd (chatLoop agent (hist @ pre) (l # later)))"
  shows "runChatMode agent hist (pre @ l # later) =
      (ConsoleLog chat_banner # (tr @ [Question prompt]) @ [RlClose], Returned)"
proof -
  have t: "chatLoop agent (hist @ pre) (l # later) = ([Question prompt], Broke)"
    by (rule chatLoop_exit [OF ex])
  have "chatLoop agent hist (pre @ l # later) = (tr @ [Question prompt], Broke)"
    unfolding c t by simp
  then show ?thesis
    unfolding runChatMode_def by simp
qed

lemma runAutonomousMode_throw:
  assumes th: "snd (runTurn agent (hist @ replicate k thought) thought) = Some err"
    and c: "autonomousLoop (k + Suc j) agent interval hist =
          (tr @ fst (autonomousLoop (Suc j) agent interval (hist @ replicate k thought)),
           snd (autonomousLoop (Suc j) agent interval (hist @ replicate k thought)))"
  shows "runAutonomousMode (k + Suc j) agent interval hist =
      (ConsoleLog ''Starting autonomous mode...''
         # (tr @ fst (runTurn agent (hist @ replicate k thought) thought)) @ fatal err,
       Exited 1)"
proof -
  have t: "autonomousLoop (Suc j) agent interval (hist @ replicate k thought) =
      (fst (runTurn agent (hist @ replicate k thought) thought) @ fatal err, Exited 1)"
    by (rule autonomousLoop_throw [OF th])
  have "autonomousLoop (k + Suc j) agent interval hist =
      (tr @ fst (runTurn agent (hist @ replicate k thought) thought) @ fatal err, Exited 1)"
    unfolding c t by simp
  then show ?thesis
    unfolding runAutonomousMode_def by simp
qed

section \<open>Separators\<close>

text \<open>
  C5, as stated, fails. A chat turn whose stream has two chunks prints two separators,
  the first of them right after the first chunk, and the same turn in autonomous mode
  prints the same two separators before it sleeps.
\<close>

theorem C5_counterexample:
  "runChatMode two_chunk_agent [] [''hi'', ''exit''] =
     ([ConsoleLog chat_banner, Question prompt, AgentStream ''hi'',
       ConsoleLog ''hello'', ConsoleLog separator,
       ConsoleLog ''done'', ConsoleLog separator,
       Question prompt, RlClose], Returned)
   \<and> count_list (fst (runChatMode two_chunk_agent [] [''hi'', ''exit'']))
        (ConsoleLog separator) = 2
   \<and> runAutonomousMode (Suc 0) two_chunk_agent 10 [] =
     ([ConsoleLog ''Starting autonomous mode...'', AgentStream thought,
       ConsoleLog ''hello'', ConsoleLog separator,
       ConsoleLog ''done'', ConsoleLog separator,
       Sleep 10000], Running)"
  by (simp add: runChatMode_def runAutonomousMode_def toLowerCase_exit runTurn_def
        two_chunk_agent_def separator_def chat_banner_def prompt_def)

text \<open>
  C5, amended. In both modes the separator is printed inside the loop over the stream,
  once after each chunk: after the chunk's content when the chunk has an \<^verbatim>\<open>agent\<close> or
  \<^verbatim>\<open>tools\<close> message, alone otherwise. A turn whose stream yields \<open>n\<close> chunks and ends
  without a throw prints \<open>n\<close> separators, and nothing is printed between the last
  chunk's separator and the next prompt (chat mode) or the sleep (autonomous mode).
\<close>

theorem C5_separator_after_each_chunk:
  "agent (hist @ [msg]) = Stream cs None \<Longrightarrow> list_all printable cs \<Longrightarrow>
     runTurn agent hist msg = (AgentStream msg # concat (map chunk_output cs), None)
     \<and> (\<not> equals_exit_ignoring_case msg \<longrightarrow>
          fst (chatLoop agent hist (msg # later)) =
            Question prompt # AgentStream msg # concat (map chunk_output cs)
            @ fst (chatLoop agent (hist @ [msg]) later))
     \<and> (msg = thought \<longrightarrow>
          fst (autonomousLoop (Suc fuel) agent interval hist) =
            AgentStream thought # concat (map chunk_output cs)
            @ Sleep (interval * 1000) # fst (autonomousLoop fuel agent interval (hist @ [thought])))
     \<and> (list_all (\<lambda>c. first_content c \<noteq> Some separator) cs \<longrightarrow>
          count_list (concat (map chunk_output cs)) (ConsoleLog separator) = length cs)"
proof -
  assume a: "agent (hist @ [msg]) = Stream cs None" and p: "list_all printable cs"
  have t: "runTurn agent hist msg = (AgentStream msg # concat (map chunk_output cs), None)"
    by (simp add: runTurn_def a consume_printable [OF p])
  have "\<not> equals_exit_ignoring_case msg \<longrightarrow>
          fst (chatLoop agent hist (msg # later)) =
            Question prompt # AgentStream msg # concat (map chunk_output cs)
            @ fst (chatLoop agent (hist @ [msg]) later)"
    using chatLoop_turn [of msg agent hist later] t by simp
  moreover have "msg = thought \<longrightarrow>
          fst (autonomousLoop (Suc fuel) agent interval hist) =
            AgentStream thought # concat (map chunk_output cs)
            @ Sleep (interval * 1000) # fst (autonomousLoop fuel agent interval (hist @ [thought]))"
    using autonomousLoop_turn [of agent hist fuel interval] t by auto
  moreover have "list_all (\<lambda>c. first_content c \<noteq> Some separator) cs \<longrightarrow>
          count_list (concat (map chunk_output cs)) (ConsoleLog separator) = length cs"
    using separators_per_chunk [OF p] by simp
  ultimately show ?thesis using t by simp
qed

theorem C5_separator_after_each_chunk_witness:
  "two_chunk_agent ([] @ [''hi'']) = Stream [AgentChunk [''hello''], ToolsChunk [''done'']] None
   \<and> list_all printable [AgentChunk [''hello''], ToolsChunk [''done'']]
   \<and> runTurn two_chunk_agent [] ''hi'' =
       (AgentStream ''hi'' #
          concat (map chunk_output [AgentChunk [''hello''], ToolsChunk [''done'']]), None)
   \<and> count_list (concat (map chunk_output [AgentChunk [''hello''], ToolsChunk [''done'']]))
        (ConsoleLog separator) = 2"
  using C5_separator_after_each_chunk [of two_chunk_agent "[]" "''hi''"
          "[AgentChunk [''hello''], ToolsChunk [''done'']]"]
  by (simp add: two_chunk_agent_def separator_def)

section \<open>Chat mode\<close>

text \<open>
  C8. The test of line 331 holds exactly for the lines that equal \<^verbatim>\<open>exit\<close> up to letter
  case. When the lines before such a line are not exit commands and their turns end
  without a throw, the run is: for each of those lines in order one question and one
  message to the agent carrying that line, then one more question, answered by the exit
  line, for which nothing is sent; the reader is closed and \<^verbatim>\<open>runChatMode\<close> returns.
  Lines after the exit line are not read.
\<close>

theorem C8_exit_ends_chat:
  "turns_ok agent hist pre \<Longrightarrow> equals_exit_ignoring_case l \<Longrightarrow>
     toLowerCase l = ''exit''
     \<and> snd (runChatMode agent hist (pre @ l # later)) = Returned
     \<and> dialogue (fst (runChatMode agent hist (pre @ l # later))) =
         concat (map (\<lambda>m. [Question prompt, AgentStream m]) pre) @ [Question prompt]
     \<and> sends (fst (runChatMode agent hist (pre @ l # later))) = pre
     \<and> last (fst (runChatMode agent hist (pre @ l # later))) = RlClose"
proof -
  assume ok: "turns_ok agent hist pre" and ex: "equals_exit_ignoring_case l"
  from chatLoop_prefix [OF ok, of "l # later"] obtain tr where
    d: "dialogue tr = concat (map (\<lambda>m. [Question prompt, AgentStream m]) pre)"
    and s: "sends tr = pre"
    and c: "chatLoop agent hist (pre @ l # later) =
          (tr @ fst (chatLoop agent (hist @ pre) (l # later)),
           snd (chatLoop agent (hist @ pre) (l # later)))"
    by blast
  have r: "runChatMode agent hist (pre @ l # later) =
      (ConsoleLog chat_banner # (tr @ [Question prompt]) @ [RlClose], Returned)"
    by (rule runChatMode_exit [OF ex c])
  show ?thesis
    using d s ex by (simp add: r toLowerCase_exit dialogue_append sends_append)
qed

theorem C8_exit_ends_chat_witness:
  "turns_ok two_chunk_agent [] [''hi'', ''exit now'']
   \<and> equals_exit_ignoring_case ''ExIt''
   \<and> snd (runChatMode two_chunk_agent [] ([''hi'', ''exit now''] @ ''ExIt'' # [''later''])) = Returned
   \<and> sends (fst (runChatMode two_chunk_agent [] ([''hi'', ''exit now''] @ ''ExIt'' # [''later''])))
       = [''hi'', ''exit now'']"
  using C8_exit_ends_chat [of two_chunk_agent "[]" "[''hi'', ''exit now'']" "''ExIt''" "[''later'']"]
  by (simp add: runTurn_def two_chunk_agent_def)

section \<open>Errors of the stream\<close>

text \<open>
  C9. In chat mode, when the turns of the earlier lines end without a throw and the turn
  of a line throws (in \<^verbatim>\<open>agent.stream\<close>, while a chunk is printed, or from the stream),
  the process ends with \<^verbatim>\<open>process.exit(1)\<close> as its last effect; the messages sent are
  the earlier lines and the failing line, once each, and no later line is sent. In
  autonomous mode, when the first \<open>k\<close> turns end without a throw and the next one
  throws, every run of more than \<open>k\<close> iterations ends with \<^verbatim>\<open>process.exit(1)\<close> as its
  last effect after exactly \<open>k + 1\<close> messages.
\<close>

theorem C9_stream_error_is_fatal:
  "(turns_ok agent hist pre \<longrightarrow> \<not> equals_exit_ignoring_case l \<longrightarrow>
      snd (runTurn agent (hist @ pre) l) = Some err \<longrightarrow>
        snd (runChatMode agent hist (pre @ l # later)) = Exited 1
        \<and> last (fst (runChatMode agent hist (pre @ l # later))) = ProcessExit 1
        \<and> sends (fst (runChatMode agent hist (pre @ l # later))) = pre @ [l])
   \<and> (auto_ok agent hist k \<longrightarrow>
      snd (runTurn agent (hist @ replicate k thought) thought) = Some err \<longrightarrow> k < fuel \<longrightarrow>
        snd (runAutonomousMode fuel agent interval hist) = Exited 1
        \<and> last (fst (runAutonomousMode fuel agent interval hist)) = ProcessExit 1
        \<and> sends (fst (runAutonomousMode fuel agent interval hist)) = replicate (Suc k) thought)"
proof (intro conjI impI)
  assume ok: "turns_ok agent hist pre" and ne: "\<not> equals_exit_ignoring_case l"
    and th: "snd (runTurn agent (hist @ pre) l) = Some err"
  from chatLoop_prefix [OF ok, of "l # later"] obtain tr where
    s: "sends tr = pre"
    and c: "chatLoop agent hist (pre @ l # later) =
          (tr @ fst (chatLoop agent (hist @ pre) (l # later)),
           snd (chatLoop agent (hist @ pre) (l # later)))"
    by blast
  have r: "runChatMode agent hist (pre @ l # later) =
      (ConsoleLog chat_banner # (tr @ Question prompt # fst (runTurn agent (hist @ pre) l))
         @ fatal err, Exited 1)"
    by (rule runChatMode_throw [OF ne th c])
  show "snd (runChatMode agent hist (pre @ l # later)) = Exited 1"
    by (simp add: r)
  show "last (fst (runChatMode agent hist (pre @ l # later))) = ProcessExit 1"
    by (simp add: r fatal_nonempty fatal_last)
  show "sends (fst (runChatMode agent hist (pre @ l # later))) = pre @ [l]"
    using s runTurn_sends [of agent "hist @ pre" l]
    by (simp add: r sends_append fatal_quiet)
next
  assume ok: "auto_ok agent hist k"
    and th: "snd (runTurn agent (hist @ replicate k thought) thought) = Some err"
    and fuel: "k < fuel"
  from fuel obtain j where "fuel = Suc (k + j)"
    using less_imp_Suc_add by blast
  then have j: "fuel = k + Suc j"
    by simp
  from autonomousLoop_prefix [OF ok, of "Suc j" interval] obtain tr where
    s: "sends tr = replicate k thought"
    and c: "autonomousLoop (k + Suc j) agent interval hist =
          (tr @ fst (autonomousLoop (Suc j) agent interval (hist @ replicate k thought)),
           snd (autonomousLoop (Suc j) agent interval (hist @ replicate k thought)))"
    by blast
  have r: "runAutonomousMode fuel agent interval hist =
      (ConsoleLog ''Starting autonomous mode...''
         # (tr @ fst (runTurn agent (hist @ replicate k thought) thought)) @ fatal err,
       Exited 1)"
    unfolding j by (rule runAutonomousMode_throw [OF th c])
  show "snd (runAutonomousMode fuel agent interval hist) = Exited 1"
    by (simp add: r)
  show "last (fst (runAutonomousMode fuel agent interval hist)) = ProcessExit 1"
    by (simp add: r fatal_nonempty fatal_last)
  show "sends (fst (runAutonomousMode fuel agent interval hist)) = replicate (Suc k) thought"
    using s runTurn_sends [of agent "hist @ replicate k thought" thought]
    by (simp add: r sends_append fatal_quiet replicate_append_same)
qed

theorem C9_stream_error_is_fatal_witness:
  "turns_ok failing_agent [] [''hi'']
   \<and> \<not> equals_exit_ignoring_case ''there''
   \<and> snd (runTurn failing_agent ([] @ [''hi'']) ''there'') = Some (Err ''Error'' ''socket hang up'')
   \<and> snd (runChatMode failing_agent [] ([''hi''] @ ''there'' # [''again''])) = Exited 1
   \<and> sends (fst (runChatMode failing_agent [] ([''hi''] @ ''there'' # [''again''])))
       = [''hi'', ''there'']
   \<and> auto_ok failing_agent [] (Suc 0)
   \<and> snd (runAutonomousMode 5 failing_agent 10 []) = Exited 1
   \<and> sends (fst (runAutonomousMode 5 failing_agent 10 [])) = [thought, thought]"
  using C9_stream_error_is_fatal [of failing_agent "[]" "[''hi'']" "''there''"
          "Err ''Error'' ''socket hang up''" "[''again'']" "Suc 0" 5 10]
  by (simp add: runTurn_def failing_agent_def)

end
